theory Spec2Isabelle
  imports Complex_Main
begin

section \<open>JavaScript values and array primitives\<close>

text \<open>
  The bot is TypeScript. A JavaScript \<open>number\<close> is idealised as a \<open>real\<close>; the value
  \<open>undefined\<close> that an out-of-range array read produces is \<open>None\<close>. A function whose body
  falls off its end without a \<open>return\<close> also yields \<open>undefined\<close>.
\<close>

text \<open>\<open>xs[i]\<close>: an index outside \<open>0 .. xs.length - 1\<close> (a negative one included) reads
  \<open>undefined\<close>; it never throws.\<close>

definition js_index :: "'a list \<Rightarrow> int \<Rightarrow> 'a option" where
  "js_index xs i = (if 0 \<le> i \<and> i < int (length xs) then Some (xs ! nat i) else None)"

text \<open>\<open>a < b\<close> and \<open>a > b\<close> with a possibly undefined left operand: \<open>undefined\<close> converts to
  \<open>NaN\<close>, and every comparison with \<open>NaN\<close> is \<open>false\<close>.\<close>

definition js_lt :: "real option \<Rightarrow> real \<Rightarrow> bool" where
  "js_lt a b = (case a of None \<Rightarrow> False | Some x \<Rightarrow> x < b)"

definition js_gt :: "real option \<Rightarrow> real \<Rightarrow> bool" where
  "js_gt a b = (case a of None \<Rightarrow> False | Some x \<Rightarrow> x > b)"

section \<open>Candles\<close>

text \<open>The object built by \<open>ChartCandle(candle)\<close> in the trading loop. The field \<open>open\<close> is
  written \<open>open_c\<close> (the name \<open>open\<close> is taken by topology).\<close>

record ChartCandle =
  open_c :: real
  high :: real
  low :: real
  close :: real
  volume :: real
  closeTime :: real
  trades :: real

section \<open>The RSI series\<close>

text \<open>
  Modelled from the spec: \<open>RSI.calculate\<close> is imported from the package
  \<open>technicalindicators\<close>, whose code is not among the sources. The definitions below follow
  sections 4.1 and 4.3 of the specification: gains and losses are the successive close
  differences clipped to be non-negative; RMA is Wilder smoothing, seeded by the mean of the
  first \<open>period\<close> values and continued by
  \<open>rma[i] = value[i] * \<alpha> + rma[i-1] * (1 - \<alpha>)\<close> with \<open>\<alpha> = 1 / period\<close>, and it is
  empty on fewer than \<open>period\<close> values; \<open>RSI = 100 - 100 / (1 + RS)\<close> with
  \<open>RS = RMA(gains) / RMA(losses)\<close>, and a zero average loss gives 100.
\<close>

fun differences :: "real list \<Rightarrow> real list" where
  "differences (x # y # ys) = (y - x) # differences (y # ys)"
| "differences _ = []"

definition gains :: "real list \<Rightarrow> real list" where
  "gains vs = map (\<lambda>d. max d 0) (differences vs)"

definition losses :: "real list \<Rightarrow> real list" where
  "losses vs = map (\<lambda>d. max (- d) 0) (differences vs)"

fun RMA_from :: "nat \<Rightarrow> real \<Rightarrow> real list \<Rightarrow> real list" where
  "RMA_from period prev [] = []"
| "RMA_from period prev (v # vs) =
     (let cur = v * (1 / real period) + prev * (1 - 1 / real period)
      in cur # RMA_from period cur vs)"

definition RMA :: "nat \<Rightarrow> real list \<Rightarrow> real list" where
  "RMA period vs =
     (if period = 0 \<or> length vs < period then []
      else (let seed = sum_list (take period vs) / real period
            in seed # RMA_from period seed (drop period vs)))"

definition rsi_of :: "real \<Rightarrow> real \<Rightarrow> real" where
  "rsi_of avgGain avgLoss =
     (if avgLoss = 0 then 100 else 100 - 100 / (1 + avgGain / avgLoss))"

text \<open>Modelled from the spec: the array \<open>RSI.calculate({values, period})\<close> returns, one
  value for each position at which both averages are defined (none are absent inside it).\<close>

definition RSI_calculate :: "nat \<Rightarrow> real list \<Rightarrow> real list" where
  "RSI_calculate period vs =
     map (\<lambda>(g, l). rsi_of g l) (zip (RMA period (gains vs)) (RMA period (losses vs)))"

section \<open>The RSI signals\<close>

definition RSI_PERIOD :: nat where
  "RSI_PERIOD = 14"

definition RSI_OVERBOUGHT :: real where
  "RSI_OVERBOUGHT = 75"

definition RSI_OVERSOLD :: real where
  "RSI_OVERSOLD = 35"

text \<open>\<open>isBuySignal\<close>: true if the RSI crosses up the oversold line. Below \<open>RSI_PERIOD\<close>
  candles the body has no \<open>return\<close>, so the result is \<open>undefined\<close> (\<open>None\<close>).\<close>

definition isBuySignal :: "ChartCandle list \<Rightarrow> bool option" where
  "isBuySignal candles =
     (if length candles \<ge> RSI_PERIOD then
        (let values = RSI_calculate RSI_PERIOD (map close candles);
             lastValue = js_index values (int (length values) - 2);
             current = js_index values (int (length values) - 1)
         in Some (js_lt lastValue RSI_OVERSOLD \<and> js_gt current RSI_OVERSOLD))
      else None)"

text \<open>\<open>isSellSignal\<close>: true if the RSI crosses down the overbought line.\<close>

definition isSellSignal :: "ChartCandle list \<Rightarrow> bool option" where
  "isSellSignal candles =
     (if length candles \<ge> RSI_PERIOD then
        (let values = RSI_calculate RSI_PERIOD (map close candles);
             lastValue = js_index values (int (length values) - 2);
             current = js_index values (int (length values) - 1)
         in Some (js_gt lastValue RSI_OVERBOUGHT \<and> js_lt current RSI_OVERBOUGHT))
      else None)"

section \<open>Neural network: configuration\<close>

text \<open>
  What an element of the input array can be: \<open>null\<close> (a disabled indicator), \<open>undefined\<close>
  (an enabled indicator whose series is empty) or a number.
\<close>

datatype jsval = Null | Undefined | Num real

text \<open>The only exception these functions can raise: reading a property of \<open>undefined\<close>.\<close>

datatype error = TypeError

text \<open>\<open>IndicatorInputsConfig\<close> is the object \<open>indicator_inputs\<close> of the bot's configuration:
  a key is absent (\<open>None\<close>) or holds a boolean. \<open>v || false\<close> is \<open>false\<close> on an absent
  key.\<close>

type_synonym IndicatorInputsConfig = "string \<Rightarrow> bool option"

definition orFalse :: "bool option \<Rightarrow> bool" where
  "orFalse v = (case v of None \<Rightarrow> False | Some b \<Rightarrow> b)"

record NeuralNetworkInputs =
  EMA21 :: bool
  EMA50 :: bool
  EMA100 :: bool
  ADX :: bool
  AO :: bool
  CCI :: bool
  MFI :: bool
  ROC :: bool
  RSI :: bool
  WILLIAM_R :: bool
  KIJUN :: bool
  VWAP :: bool
  VOL_OSC :: bool
  VOL :: bool

definition NEURAL_NETWORK_INPUTS :: "IndicatorInputsConfig \<Rightarrow> NeuralNetworkInputs" where
  "NEURAL_NETWORK_INPUTS cfg =
     \<lparr> EMA21 = orFalse (cfg ''EMA21''),
       EMA50 = orFalse (cfg ''EMA50''),
       EMA100 = orFalse (cfg ''EMA100''),
       ADX = orFalse (cfg ''ADX''),
       AO = orFalse (cfg ''AO''),
       CCI = orFalse (cfg ''CCI''),
       MFI = orFalse (cfg ''MFI''),
       ROC = orFalse (cfg ''ROC''),
       RSI = orFalse (cfg ''RSI''),
       WILLIAM_R = orFalse (cfg ''WILLIAM_R''),
       KIJUN = orFalse (cfg ''EMA21''),
       VWAP = orFalse (cfg ''VWAP''),
       VOL_OSC = orFalse (cfg ''VOL_OSC''),
       VOL = orFalse (cfg ''VOL'') \<rparr>"

text \<open>\<open>Object.entries\<close>, in the order the object literal lists its keys.\<close>

definition Object_entries :: "NeuralNetworkInputs \<Rightarrow> (string \<times> bool) list" where
  "Object_entries ni =
     [(''EMA21'', EMA21 ni), (''EMA50'', EMA50 ni), (''EMA100'', EMA100 ni), (''ADX'', ADX ni),
      (''AO'', AO ni), (''CCI'', CCI ni), (''MFI'', MFI ni), (''ROC'', ROC ni), (''RSI'', RSI ni),
      (''WILLIAM_R'', WILLIAM_R ni), (''KIJUN'', KIJUN ni), (''VWAP'', VWAP ni),
      (''VOL_OSC'', VOL_OSC ni), (''VOL'', VOL ni)]"

text \<open>The first argument is \<open>NEURAL_NETWORK_INPUTS_MODE\<close>, read from the configuration.\<close>

definition NUMBER_INPUTS :: "string \<Rightarrow> IndicatorInputsConfig \<Rightarrow> nat" where
  "NUMBER_INPUTS mode cfg =
     (if mode = ''candles'' then 21
      else length (filter (\<lambda>(key, val). val = True) (Object_entries (NEURAL_NETWORK_INPUTS cfg))) + 1)"

definition NUMBER_OUTPUTS :: nat where
  "NUMBER_OUTPUTS = 3"

section \<open>Neural network: wallets and the indicator library\<close>

type_synonym CandleData = ChartCandle

text \<open>The wallet entries, with the fields the functions read (\<open>symbol\<close>, \<open>quantity\<close>,
  \<open>pair\<close>, \<open>size\<close>, prefixed here). Both wallets of \<open>extra\<close> are optional.\<close>

record Balance =
  bal_symbol :: string
  bal_quantity :: real

record Wallet =
  balances :: "Balance list"

record Position =
  pos_pair :: string
  pos_size :: real

record FuturesWallet =
  positions :: "Position list"

record Extra =
  wallet :: "Wallet option"
  futuresWallet :: "FuturesWallet option"

record ADXOutput =
  adx :: real
  pdi :: real
  mdi :: real

record IchimokuCloudOutput =
  conversion :: real
  base :: real
  spanA :: real
  spanB :: real

text \<open>
  The \<open>calculate\<close> functions of the package \<open>technicalindicators\<close> and of the bot's own
  volume oscillator are not among the sources; the functions below take them as a
  parameter. Each maps its periods and input series to an array of numbers (of objects
  for ADX and Ichimoku). \<open>RSI.calculate\<close> is \<open>RSI_calculate\<close> above.
\<close>

record TechnicalIndicators =
  EMA_calculate :: "nat \<Rightarrow> real list \<Rightarrow> real list"
  ADX_calculate :: "nat \<Rightarrow> real list \<Rightarrow> real list \<Rightarrow> real list \<Rightarrow> ADXOutput list"
  AwesomeOscillator_calculate :: "nat \<Rightarrow> nat \<Rightarrow> real list \<Rightarrow> real list \<Rightarrow> real list"
  CCI_calculate :: "nat \<Rightarrow> real list \<Rightarrow> real list \<Rightarrow> real list \<Rightarrow> real list"
  MFI_calculate :: "nat \<Rightarrow> real list \<Rightarrow> real list \<Rightarrow> real list \<Rightarrow> real list \<Rightarrow> real list"
  ROC_calculate :: "nat \<Rightarrow> real list \<Rightarrow> real list"
  WilliamsR_calculate :: "nat \<Rightarrow> real list \<Rightarrow> real list \<Rightarrow> real list \<Rightarrow> real list"
  IchimokuCloud_calculate ::
    "nat \<Rightarrow> nat \<Rightarrow> nat \<Rightarrow> nat \<Rightarrow> real list \<Rightarrow> real list \<Rightarrow> IchimokuCloudOutput list"
  VWAP_calculate :: "real list \<Rightarrow> real list \<Rightarrow> real list \<Rightarrow> real list \<Rightarrow> real list"
  volumeOscillator_calculate :: "nat \<Rightarrow> nat \<Rightarrow> CandleData list \<Rightarrow> real list"

text \<open>\<open>xs.slice(start)\<close>: a negative start counts from the end and is clamped at 0, a start
  past the end gives the empty array.\<close>

definition js_slice :: "int \<Rightarrow> 'a list \<Rightarrow> 'a list" where
  "js_slice start xs =
     (let n = int (length xs);
          k = (if start < 0 then max (n + start) 0 else min start n)
      in drop (nat k) xs)"

text \<open>\<open>xs.slice(-1)[0]\<close>: the last number, \<open>undefined\<close> on an empty array.\<close>

definition lastOrUndefined :: "real list \<Rightarrow> jsval" where
  "lastOrUndefined xs =
     (case js_index (js_slice (- 1) xs) 0 of None \<Rightarrow> Undefined | Some v \<Rightarrow> Num v)"

text \<open>Sequencing of steps that may throw.\<close>

definition andThen :: "error + 'a \<Rightarrow> ('a \<Rightarrow> error + 'b) \<Rightarrow> error + 'b" where
  "andThen r f = (case r of Inl e \<Rightarrow> Inl e | Inr v \<Rightarrow> f v)"

text \<open>\<open>Currently holding a trade/position?\<close> The block shared by both input functions.
  \<open>find\<close> gives \<open>undefined\<close> when no entry matches, and reading \<open>quantity\<close> or
  \<open>size\<close> of it throws. A futures wallet overrides the spot wallet's answer.\<close>

definition holdingTrade :: "string \<Rightarrow> Extra \<Rightarrow> error + bool" where
  "holdingTrade pr extra =
     andThen
       (case wallet extra of
          None \<Rightarrow> Inr False
        | Some w \<Rightarrow>
            (case find (\<lambda>bal. bal_symbol bal = pr) (balances w) of
               None \<Rightarrow> Inl TypeError
             | Some balance \<Rightarrow> Inr (bal_quantity balance > 0)))
       (\<lambda>held.
          case futuresWallet extra of
            None \<Rightarrow> Inr held
          | Some fw \<Rightarrow>
              (case find (\<lambda>pos. pos_pair pos = pr) (positions fw) of
                 None \<Rightarrow> Inl TypeError
               | Some position \<Rightarrow> Inr (pos_size position \<noteq> 0)))"

section \<open>Neural network: inputs from indicators\<close>

text \<open>One definition per local constant of \<open>getInputsFromIndicators\<close>, in its order.\<close>

definition ema21_input :: "TechnicalIndicators \<Rightarrow> NeuralNetworkInputs \<Rightarrow> CandleData list \<Rightarrow> jsval" where
  "ema21_input lib ni candles =
     (if EMA21 ni
      then lastOrUndefined (EMA_calculate lib 21 (js_slice (- 21) (map close candles)))
      else Null)"

definition ema50_input :: "TechnicalIndicators \<Rightarrow> NeuralNetworkInputs \<Rightarrow> CandleData list \<Rightarrow> jsval" where
  "ema50_input lib ni candles =
     (if EMA50 ni
      then lastOrUndefined (EMA_calculate lib 50 (js_slice (- 50) (map close candles)))
      else Null)"

definition ema100_input :: "TechnicalIndicators \<Rightarrow> NeuralNetworkInputs \<Rightarrow> CandleData list \<Rightarrow> jsval" where
  "ema100_input lib ni candles =
     (if EMA100 ni
      then lastOrUndefined (EMA_calculate lib 100 (js_slice (- 100) (map close candles)))
      else Null)"

text \<open>\<open>.slice(-1)[0].adx\<close> throws when the ADX series is empty.\<close>

definition adx_input ::
  "TechnicalIndicators \<Rightarrow> NeuralNetworkInputs \<Rightarrow> CandleData list \<Rightarrow> error + jsval" where
  "adx_input lib ni candles =
     (if ADX ni
      then (case js_index
                   (js_slice (- 1)
                      (ADX_calculate lib 14 (js_slice (- 15) (map close candles))
                         (js_slice (- 15) (map high candles))
                         (js_slice (- 15) (map low candles)))) 0 of
              None \<Rightarrow> Inl TypeError
            | Some out \<Rightarrow> Inr (Num (adx out)))
      else Inr Null)"

definition ao_input :: "TechnicalIndicators \<Rightarrow> NeuralNetworkInputs \<Rightarrow> CandleData list \<Rightarrow> jsval" where
  "ao_input lib ni candles =
     (if AO ni
      then lastOrUndefined
             (AwesomeOscillator_calculate lib 5 25 (js_slice (- 26) (map high candles))
                (js_slice (- 26) (map low candles)))
      else Null)"

definition cci_input :: "TechnicalIndicators \<Rightarrow> NeuralNetworkInputs \<Rightarrow> CandleData list \<Rightarrow> jsval" where
  "cci_input lib ni candles =
     (if CCI ni
      then lastOrUndefined
             (CCI_calculate lib 20 (js_slice (- 21) (map close candles))
                (js_slice (- 21) (map high candles)) (js_slice (- 21) (map low candles)))
      else Null)"

definition mfi_input :: "TechnicalIndicators \<Rightarrow> NeuralNetworkInputs \<Rightarrow> CandleData list \<Rightarrow> jsval" where
  "mfi_input lib ni candles =
     (if MFI ni
      then lastOrUndefined
             (MFI_calculate lib 14 (js_slice (- 15) (map volume candles))
                (js_slice (- 15) (map close candles)) (js_slice (- 15) (map high candles))
                (js_slice (- 15) (map low candles)))
      else Null)"

definition roc_input :: "TechnicalIndicators \<Rightarrow> NeuralNetworkInputs \<Rightarrow> CandleData list \<Rightarrow> jsval" where
  "roc_input lib ni candles =
     (if ROC ni
      then lastOrUndefined (ROC_calculate lib 9 (js_slice (- 10) (map close candles)))
      else Null)"

definition rsi_input :: "NeuralNetworkInputs \<Rightarrow> CandleData list \<Rightarrow> jsval" where
  "rsi_input ni candles =
     (if RSI ni
      then lastOrUndefined (RSI_calculate 14 (js_slice (- 15) (map close candles)))
      else Null)"

definition williamR_input :: "TechnicalIndicators \<Rightarrow> NeuralNetworkInputs \<Rightarrow> CandleData list \<Rightarrow> jsval" where
  "williamR_input lib ni candles =
     (if WILLIAM_R ni
      then lastOrUndefined
             (WilliamsR_calculate lib 14 (js_slice (- 15) (map close candles))
                (js_slice (- 15) (map high candles)) (js_slice (- 15) (map low candles)))
      else Null)"

text \<open>\<open>.slice(-1)[0].base\<close> throws when the Ichimoku series is empty.\<close>

definition kijun_input ::
  "TechnicalIndicators \<Rightarrow> NeuralNetworkInputs \<Rightarrow> CandleData list \<Rightarrow> error + jsval" where
  "kijun_input lib ni candles =
     (if KIJUN ni
      then (case js_index
                   (js_slice (- 1)
                      (IchimokuCloud_calculate lib 9 26 52 26 (js_slice (- 53) (map high candles))
                         (js_slice (- 53) (map low candles)))) 0 of
              None \<Rightarrow> Inl TypeError
            | Some out \<Rightarrow> Inr (Num (base out)))
      else Inr Null)"

text \<open>\<open>candles[candles.length - 1].close\<close> throws on an empty candle list.\<close>

definition vwap_input ::
  "TechnicalIndicators \<Rightarrow> NeuralNetworkInputs \<Rightarrow> CandleData list \<Rightarrow> error + jsval" where
  "vwap_input lib ni candles =
     (if VWAP ni
      then (case js_index candles (int (length candles) - 1) of
              None \<Rightarrow> Inl TypeError
            | Some c \<Rightarrow>
                Inr (lastOrUndefined (VWAP_calculate lib [close c] [high c] [low c] [volume c])))
      else Inr Null)"

definition volOsc_input :: "TechnicalIndicators \<Rightarrow> NeuralNetworkInputs \<Rightarrow> CandleData list \<Rightarrow> jsval" where
  "volOsc_input lib ni candles =
     (if VOL_OSC ni
      then lastOrUndefined (volumeOscillator_calculate lib 5 10 (js_slice (- 11) candles))
      else Null)"

definition vol_input :: "NeuralNetworkInputs \<Rightarrow> CandleData list \<Rightarrow> error + jsval" where
  "vol_input ni candles =
     (if VOL ni
      then (case js_index candles (int (length candles) - 1) of
              None \<Rightarrow> Inl TypeError
            | Some c \<Rightarrow> Inr (Num (volume c)))
      else Inr Null)"

text \<open>The function itself: the constants in their order, the holding flag, then the array
  literal (where \<open>vwap\<close> stands before \<open>kijun\<close>) filtered by \<open>i !== null\<close>.\<close>

definition getInputsFromIndicators ::
  "TechnicalIndicators \<Rightarrow> IndicatorInputsConfig \<Rightarrow> string \<Rightarrow> CandleData list \<Rightarrow> Extra
     \<Rightarrow> error + jsval list" where
  "getInputsFromIndicators lib cfg pr candles extra =
     (let ni = NEURAL_NETWORK_INPUTS cfg;
          ema21 = ema21_input lib ni candles;
          ema50 = ema50_input lib ni candles;
          ema100 = ema100_input lib ni candles
      in andThen (adx_input lib ni candles) (\<lambda>adxv.
         let ao = ao_input lib ni candles;
             cci = cci_input lib ni candles;
             mfi = mfi_input lib ni candles;
             roc = roc_input lib ni candles;
             rsi = rsi_input ni candles;
             williamR = williamR_input lib ni candles
         in andThen (kijun_input lib ni candles) (\<lambda>kijun.
            andThen (vwap_input lib ni candles) (\<lambda>vwap.
            let volOsc = volOsc_input lib ni candles
            in andThen (vol_input ni candles) (\<lambda>vol.
               andThen (holdingTrade pr extra) (\<lambda>held.
                 Inr (filter (\<lambda>i. i \<noteq> Null)
                        [ema21, ema50, ema100, adxv, ao, cci, mfi, roc, rsi, williamR, vwap,
                         kijun, volOsc, vol, Num (if held then 1 else 0)])))))))"

section \<open>Neural network: inputs from candles\<close>

text \<open>The inner function \<open>getCandleSource\<close>; its first argument is the configured
  \<open>CANDLE_SOURCE\<close>.\<close>

definition getCandleSource :: "string \<Rightarrow> CandleData list \<Rightarrow> real list" where
  "getCandleSource src candles =
     (if src = ''open'' then map open_c candles
      else if src = ''close'' then map close candles
      else if src = ''high'' then map high candles
      else if src = ''low'' then map low candles
      else if src = ''hl2'' then map (\<lambda>c. (high c + low c) / 2) candles
      else map close candles)"

text \<open>The parameter \<open>length\<close> is written \<open>len\<close>; it is taken to be an integer.\<close>

definition getInputsFromCandles ::
  "string \<Rightarrow> string \<Rightarrow> CandleData list \<Rightarrow> int \<Rightarrow> Extra \<Rightarrow> error + real list" where
  "getInputsFromCandles src pr candles len extra =
     andThen (holdingTrade pr extra) (\<lambda>held.
       Inr (js_slice (- len) (getCandleSource src candles) @ [if held then 1 else 0]))"

section \<open>Neural network: the decision\<close>

datatype Action = BUY | SELL | CLOSE

text \<open>\<open>Math.max(...actions)\<close>; \<open>None\<close> stands for the \<open>-Infinity\<close> of an empty array.\<close>

definition Math_max :: "real list \<Rightarrow> real option" where
  "Math_max xs = (case xs of [] \<Rightarrow> None | y # ys \<Rightarrow> Some (fold max ys y))"

text \<open>\<open>max === actions[i]\<close>: false when \<open>actions[i]\<close> is \<open>undefined\<close>, and when \<open>max\<close> is
  \<open>-Infinity\<close> (no output is).\<close>

definition strictEq :: "real option \<Rightarrow> real option \<Rightarrow> bool" where
  "strictEq m a = (case m of None \<Rightarrow> False | Some x \<Rightarrow> (case a of None \<Rightarrow> False | Some y \<Rightarrow> x = y))"

text \<open>\<open>getOutputs\<close>. The mode, the candle source and the indicator flags come from the
  configuration; \<open>predict\<close> is \<open>brain.predict\<close>, whose class is not among the sources.
  Falling off the end returns \<open>undefined\<close> (\<open>None\<close>).\<close>

definition getOutputs ::
  "string \<Rightarrow> string \<Rightarrow> TechnicalIndicators \<Rightarrow> IndicatorInputsConfig \<Rightarrow> (jsval list \<Rightarrow> real list)
     \<Rightarrow> string \<Rightarrow> CandleData list \<Rightarrow> Extra \<Rightarrow> error + Action option" where
  "getOutputs mode src lib cfg predict pr candles extra =
     andThen
       (if mode = ''candles''
        then andThen (getInputsFromCandles src pr candles 20 extra) (\<lambda>xs. Inr (map Num xs))
        else getInputsFromIndicators lib cfg pr candles extra)
       (\<lambda>inputs.
          let actions = predict inputs;
              mx = Math_max actions
          in Inr (if strictEq mx (js_index actions 0) \<and> js_gt (js_index actions 0) 0.6
                  then Some BUY
                  else if strictEq mx (js_index actions 1) \<and> js_gt (js_index actions 1) 0.6
                  then Some SELL
                  else if strictEq mx (js_index actions 2) \<and> js_gt (js_index actions 2) 0.6
                  then Some CLOSE
                  else None))"

section \<open>Example inputs\<close>

text \<open>A candle whose prices all equal the given close, and the close series the facts below
  are evaluated on.\<close>

definition candleOfClose :: "real \<Rightarrow> ChartCandle" where
  "candleOfClose c =
     \<lparr>open_c = c, high = c, low = c, close = c, volume = 0, closeTime = 0, trades = 0\<rparr>"

text \<open>The fifteen closes of the end-to-end scenario of the specification.\<close>

definition scenario_closes :: "real list" where
  "scenario_closes =
     [44, 44.3, 44.1, 43.6, 44, 44.3, 45, 45.1, 45.2, 45.5, 45.1, 45.6, 46.1, 46.8, 47.2]"

text \<open>Sixteen closes whose RSI series is 35 (gains 7, losses 13 over the first window), then
  above 35.\<close>

definition touching_closes :: "real list" where
  "touching_closes = [100, 107, 94, 94, 94, 94, 94, 94, 94, 94, 94, 94, 94, 94, 94, 95]"

text \<open>Sixteen closes whose RSI series is 100 then about 46.4, and the mirror image whose RSI
  series is 0 then about 53.6.\<close>

definition rising_then_drop :: "real list" where
  "rising_then_drop = [1, 2, 3, 4, 5, 6, 7, 8, 9, 10, 11, 12, 13, 14, 15, 0]"

definition falling_then_jump :: "real list" where
  "falling_then_jump = [15, 14, 13, 12, 11, 10, 9, 8, 7, 6, 5, 4, 3, 2, 1, 16]"

text \<open>An indicator library on which every series is empty, as on too short a history.\<close>

definition noHistoryLibrary :: TechnicalIndicators where
  "noHistoryLibrary =
     \<lparr> EMA_calculate = (\<lambda>period vs. []),
       ADX_calculate = (\<lambda>period cs hs ls. []),
       AwesomeOscillator_calculate = (\<lambda>fast slow hs ls. []),
       CCI_calculate = (\<lambda>period cs hs ls. []),
       MFI_calculate = (\<lambda>period vols cs hs ls. []),
       ROC_calculate = (\<lambda>period vs. []),
       WilliamsR_calculate = (\<lambda>period cs hs ls. []),
       IchimokuCloud_calculate = (\<lambda>conv bs span disp hs ls. []),
       VWAP_calculate = (\<lambda>cs hs ls vols. []),
       volumeOscillator_calculate = (\<lambda>short long candles. []) \<rparr>"

text \<open>A call with neither a spot nor a futures wallet.\<close>

definition noWallet :: Extra where
  "noWallet = \<lparr> wallet = None, futuresWallet = None \<rparr>"

section \<open>Facts about the RSI series and the signals\<close>

lemma length_differences: "length (differences xs) = length xs - 1"
  by (induction xs rule: differences.induct) auto

lemma length_RMA_from: "length (RMA_from p a xs) = length xs"
  by (induction xs arbitrary: a) (auto simp: Let_def)

lemma length_RMA: "0 < p \<Longrightarrow> length (RMA p xs) = Suc (length xs) - p"
  by (auto simp: RMA_def Let_def length_RMA_from)

lemma length_RSI_calculate: "0 < p \<Longrightarrow> length (RSI_calculate p xs) = length xs - p"
  by (auto simp: RSI_calculate_def length_RMA gains_def losses_def length_differences)

lemma close_candleOfClose: "map close (map candleOfClose xs) = xs"
  by (induction xs) (auto simp: candleOfClose_def)

lemma RSI_scenario: "RSI_calculate RSI_PERIOD scenario_closes = [2150 / 27]"
  by (simp add: RSI_PERIOD_def scenario_closes_def RSI_calculate_def RMA_def gains_def losses_def rsi_of_def)

lemma RSI_touching: "RSI_calculate RSI_PERIOD touching_closes = [35, 5250 / 137]"
  by (simp add: RSI_PERIOD_def touching_closes_def RSI_calculate_def RMA_def gains_def losses_def rsi_of_def)

lemma RSI_rising: "RSI_calculate RSI_PERIOD rising_then_drop = [100, 325 / 7]"
  by (simp add: RSI_PERIOD_def rising_then_drop_def RSI_calculate_def RMA_def gains_def losses_def rsi_of_def)

lemma RSI_falling: "RSI_calculate RSI_PERIOD falling_then_jump = [0, 375 / 7]"
  by (simp add: RSI_PERIOD_def falling_then_jump_def RSI_calculate_def RMA_def gains_def losses_def rsi_of_def)

text \<open>The signals in terms of the RSI series.\<close>

lemma isBuySignal_short: "length (RSI_calculate RSI_PERIOD (map close candles)) < 2 \<Longrightarrow>
  RSI_PERIOD \<le> length candles \<Longrightarrow> isBuySignal candles = Some False"
  by (auto simp: isBuySignal_def Let_def js_index_def js_lt_def)

lemma isSellSignal_short: "length (RSI_calculate RSI_PERIOD (map close candles)) < 2 \<Longrightarrow>
  RSI_PERIOD \<le> length candles \<Longrightarrow> isSellSignal candles = Some False"
  by (auto simp: isSellSignal_def Let_def js_index_def js_gt_def)

lemma two_values_enough_candles:
  "2 \<le> length (RSI_calculate RSI_PERIOD (map close candles)) \<Longrightarrow> RSI_PERIOD \<le> length candles"
  by (simp add: length_RSI_calculate RSI_PERIOD_def)

lemma isBuySignal_two:
  assumes "2 \<le> length (RSI_calculate RSI_PERIOD (map close candles))"
  shows "isBuySignal candles =
    Some (RSI_calculate RSI_PERIOD (map close candles) ! (length (RSI_calculate RSI_PERIOD (map close candles)) - 2) < RSI_OVERSOLD
        \<and> RSI_calculate RSI_PERIOD (map close candles) ! (length (RSI_calculate RSI_PERIOD (map close candles)) - 1) > RSI_OVERSOLD)"
proof -
  define vs where "vs = RSI_calculate RSI_PERIOD (map close candles)"
  have n: "2 \<le> length vs" using assms by (simp add: vs_def)
  have i2: "js_index vs (int (length vs) - 2) = Some (vs ! (length vs - 2))"
    using n by (auto simp: js_index_def nat_diff_distrib')
  have i1: "js_index vs (int (length vs) - 1) = Some (vs ! (length vs - 1))"
    using n by (auto simp: js_index_def nat_diff_distrib')
  show ?thesis
    using two_values_enough_candles[OF assms] i1 i2
    by (simp add: isBuySignal_def Let_def js_lt_def js_gt_def vs_def)
qed

lemma isSellSignal_two:
  assumes "2 \<le> length (RSI_calculate RSI_PERIOD (map close candles))"
  shows "isSellSignal candles =
    Some (RSI_calculate RSI_PERIOD (map close candles) ! (length (RSI_calculate RSI_PERIOD (map close candles)) - 2) > RSI_OVERBOUGHT
        \<and> RSI_calculate RSI_PERIOD (map close candles) ! (length (RSI_calculate RSI_PERIOD (map close candles)) - 1) < RSI_OVERBOUGHT)"
proof -
  define vs where "vs = RSI_calculate RSI_PERIOD (map close candles)"
  have n: "2 \<le> length vs" using assms by (simp add: vs_def)
  have i2: "js_index vs (int (length vs) - 2) = Some (vs ! (length vs - 2))"
    using n by (auto simp: js_index_def nat_diff_distrib')
  have i1: "js_index vs (int (length vs) - 1) = Some (vs ! (length vs - 1))"
    using n by (auto simp: js_index_def nat_diff_distrib')
  show ?thesis
    using two_values_enough_candles[OF assms] i1 i2
    by (simp add: isSellSignal_def Let_def js_lt_def js_gt_def vs_def)
qed

text \<open>
  Claim C1. The claim has both signals absent on every list of fewer than 15 candles. The
  guard of the code is \<open>candles.length >= RSI_PERIOD\<close> with \<open>RSI_PERIOD = 14\<close>: below 14
  candles both signals are absent (\<open>undefined\<close>, no exception); with exactly 14 candles the
  guard passes, the RSI series is empty, both reads are \<open>undefined\<close>, and both signals are
  the boolean \<open>false\<close>.
\<close>
theorem signals_under_15_candles:
  assumes "length candles < 15"
  shows "isBuySignal candles = (if length candles < 14 then None else Some False)
       \<and> isSellSignal candles = (if length candles < 14 then None else Some False)"
proof (cases "length candles < 14")
  case True
  then show ?thesis by (simp add: isBuySignal_def isSellSignal_def RSI_PERIOD_def)
next
  case False
  with assms have len: "length candles = 14" by simp
  then have "length (RSI_calculate RSI_PERIOD (map close candles)) < 2"
    by (simp add: length_RSI_calculate RSI_PERIOD_def)
  moreover have "RSI_PERIOD \<le> length candles" using len by (simp add: RSI_PERIOD_def)
  ultimately show ?thesis using len
    by (simp add: isBuySignal_short isSellSignal_short)
qed

text \<open>Both cases of the guard, on 14 and on 13 flat candles.\<close>

theorem signals_under_15_candles_witness:
  "isBuySignal (replicate 14 (candleOfClose 50)) = Some False
   \<and> isSellSignal (replicate 14 (candleOfClose 50)) = Some False
   \<and> isBuySignal (replicate 13 (candleOfClose 50)) = None
   \<and> isSellSignal (replicate 13 (candleOfClose 50)) = None"
  using signals_under_15_candles [of "replicate 14 (candleOfClose 50)"]
        signals_under_15_candles [of "replicate 13 (candleOfClose 50)"]
  by simp

text \<open>Fourteen candles are fewer than 15, and both signals are \<open>false\<close>, not absent.\<close>

theorem fourteen_candles_counterexample:
  "length (replicate 14 (candleOfClose 50)) < 15
   \<and> isBuySignal (replicate 14 (candleOfClose 50)) = Some False
   \<and> isSellSignal (replicate 14 (candleOfClose 50)) = Some False"
  by (simp add: isBuySignal_def isSellSignal_def RSI_PERIOD_def length_RSI_calculate
        js_index_def js_lt_def js_gt_def Let_def)

text \<open>
  Claim C2. When the RSI series has at least two values, \<open>isBuySignal\<close> is true exactly when
  the previous value is strictly below 35 and the current value is strictly above 35: the
  code compares with \<open><\<close> on the earlier point, not \<open>\<le>\<close>.
\<close>
theorem isBuySignal_iff_strict_cross:
  assumes "2 \<le> length (RSI_calculate RSI_PERIOD (map close candles))"
  shows "isBuySignal candles = Some True \<longleftrightarrow>
     RSI_calculate RSI_PERIOD (map close candles)
        ! (length (RSI_calculate RSI_PERIOD (map close candles)) - 2) < 35
   \<and> RSI_calculate RSI_PERIOD (map close candles)
        ! (length (RSI_calculate RSI_PERIOD (map close candles)) - 1) > 35"
  using isBuySignal_two[OF assms] by (auto simp: RSI_OVERSOLD_def)

text \<open>A series that goes from 0 to about 53.6 is a buy signal.\<close>

theorem isBuySignal_iff_strict_cross_witness:
  "2 \<le> length (RSI_calculate RSI_PERIOD (map close (map candleOfClose falling_then_jump)))
   \<and> isBuySignal (map candleOfClose falling_then_jump) = Some True"
proof -
  have vs: "RSI_calculate RSI_PERIOD (map close (map candleOfClose falling_then_jump)) = [0, 375 / 7]"
    by (simp only: close_candleOfClose RSI_falling)
  have two: "2 \<le> length (RSI_calculate RSI_PERIOD (map close (map candleOfClose falling_then_jump)))"
    by (simp only: vs) simp
  show ?thesis
    using two isBuySignal_iff_strict_cross [OF two] by (simp only: vs) simp
qed

text \<open>A previous value of exactly 35 followed by a value above 35 is no buy signal.\<close>

theorem touching_35_counterexample:
  "RSI_calculate RSI_PERIOD (map close (map candleOfClose touching_closes)) = [35, 5250 / 137]
   \<and> isBuySignal (map candleOfClose touching_closes) = Some False"
proof -
  have vs: "RSI_calculate RSI_PERIOD (map close (map candleOfClose touching_closes)) = [35, 5250 / 137]"
    by (simp only: close_candleOfClose RSI_touching)
  have len: "RSI_PERIOD \<le> length (map candleOfClose touching_closes)"
    by (simp add: RSI_PERIOD_def touching_closes_def)
  have "isBuySignal (map candleOfClose touching_closes) = Some False"
    unfolding isBuySignal_def vs using len
    by (simp add: Let_def js_index_def js_lt_def js_gt_def RSI_OVERSOLD_def)
  with vs show ?thesis by simp
qed

text \<open>
  Claim C3. On candles whose closes are the fifteen values of the scenario, the 14-period
  RSI series has the single value \<open>2150 / 27\<close> (about 79.63); there is no earlier point, the
  read of \<open>values[values.length - 2]\<close> is \<open>undefined\<close>, and \<open>isBuySignal\<close> returns false.
\<close>
theorem scenario_gives_no_buy_signal:
  assumes "map close candles = scenario_closes"
  shows "RSI_calculate RSI_PERIOD (map close candles) = [2150 / 27] \<and> isBuySignal candles = Some False"
proof -
  have "length (map close candles) = 15" using assms by (simp add: scenario_closes_def)
  then have len: "RSI_PERIOD \<le> length candles" by (simp add: RSI_PERIOD_def)
  have vs: "RSI_calculate RSI_PERIOD (map close candles) = [2150 / 27]"
    using assms RSI_scenario by simp
  then have "length (RSI_calculate RSI_PERIOD (map close candles)) < 2" by simp
  then have "isBuySignal candles = Some False" using len by (rule isBuySignal_short)
  with vs show ?thesis by simp
qed

text \<open>The scenario on flat candles.\<close>

theorem scenario_gives_no_buy_signal_witness:
  "RSI_calculate RSI_PERIOD (map close (map candleOfClose scenario_closes)) = [2150 / 27]
   \<and> isBuySignal (map candleOfClose scenario_closes) = Some False"
  using scenario_gives_no_buy_signal [of "map candleOfClose scenario_closes", OF close_candleOfClose]
  by blast

text \<open>The scenario does not make \<open>isBuySignal\<close> true.\<close>

theorem scenario_counterexample:
  "isBuySignal (map candleOfClose scenario_closes) \<noteq> Some True"
proof -
  have vs: "RSI_calculate RSI_PERIOD (map close (map candleOfClose scenario_closes)) = [2150 / 27]"
    by (simp only: close_candleOfClose RSI_scenario)
  have len: "RSI_PERIOD \<le> length (map candleOfClose scenario_closes)"
    by (simp add: RSI_PERIOD_def scenario_closes_def)
  show ?thesis
    unfolding isBuySignal_def vs using len
    by (simp add: Let_def js_index_def js_lt_def)
qed

text \<open>
  Claim C5. On no candle list are \<open>isBuySignal\<close> and \<open>isSellSignal\<close> both true.
\<close>
theorem signals_mutually_exclusive:
  "\<not> (isBuySignal candles = Some True \<and> isSellSignal candles = Some True)"
  by (auto simp: isBuySignal_def isSellSignal_def Let_def js_lt_def js_gt_def
        RSI_OVERSOLD_def RSI_OVERBOUGHT_def split: option.splits if_splits)

text \<open>
  Claim C6. When the RSI series has at least two values: if the second-to-last is above 75
  and the last below 75, \<open>isSellSignal\<close> is true; if the second-to-last is below 35 and the
  last above 35, \<open>isBuySignal\<close> is true.
\<close>
theorem cross_implies_signal:
  assumes "2 \<le> length (RSI_calculate RSI_PERIOD (map close candles))"
  shows "(RSI_calculate RSI_PERIOD (map close candles)
            ! (length (RSI_calculate RSI_PERIOD (map close candles)) - 2) > 75
          \<and> RSI_calculate RSI_PERIOD (map close candles)
            ! (length (RSI_calculate RSI_PERIOD (map close candles)) - 1) < 75
          \<longrightarrow> isSellSignal candles = Some True)
       \<and> (RSI_calculate RSI_PERIOD (map close candles)
            ! (length (RSI_calculate RSI_PERIOD (map close candles)) - 2) < 35
          \<and> RSI_calculate RSI_PERIOD (map close candles)
            ! (length (RSI_calculate RSI_PERIOD (map close candles)) - 1) > 35
          \<longrightarrow> isBuySignal candles = Some True)"
  using isBuySignal_two[OF assms] isSellSignal_two[OF assms]
  by (simp add: RSI_OVERSOLD_def RSI_OVERBOUGHT_def)

text \<open>A fall from 100 to about 46.4 sells; a rise from 0 to about 53.6 buys.\<close>

theorem cross_implies_signal_witness:
  "isSellSignal (map candleOfClose rising_then_drop) = Some True
   \<and> isBuySignal (map candleOfClose falling_then_jump) = Some True"
proof -
  have r: "RSI_calculate RSI_PERIOD (map close (map candleOfClose rising_then_drop)) = [100, 325 / 7]"
    by (simp only: close_candleOfClose RSI_rising)
  have f: "RSI_calculate RSI_PERIOD (map close (map candleOfClose falling_then_jump)) = [0, 375 / 7]"
    by (simp only: close_candleOfClose RSI_falling)
  have r2: "2 \<le> length (RSI_calculate RSI_PERIOD (map close (map candleOfClose rising_then_drop)))"
    by (simp only: r) simp
  have f2: "2 \<le> length (RSI_calculate RSI_PERIOD (map close (map candleOfClose falling_then_jump)))"
    by (simp only: f) simp
  have "isSellSignal (map candleOfClose rising_then_drop) = Some True"
    using cross_implies_signal [OF r2] by (simp only: r) simp
  moreover have "isBuySignal (map candleOfClose falling_then_jump) = Some True"
    using cross_implies_signal [OF f2] by (simp only: f) simp
  ultimately show ?thesis by simp
qed

section \<open>Facts about the neural network inputs\<close>

lemma andThen_Inr: "andThen r f = Inr y \<longleftrightarrow> (\<exists>v. r = Inr v \<and> f v = Inr y)"
  by (cases r) (auto simp: andThen_def)

lemma andThen_simps: "andThen (Inr v) f = f v" "andThen (Inl e) f = Inl e"
  by (simp_all add: andThen_def)

lemma error_is_TypeError: "(e::error) = TypeError"
  by (cases e) simp

lemma holdingTrade_noWallet: "holdingTrade pr noWallet = Inr False"
  by (simp add: holdingTrade_def noWallet_def andThen_def)

text \<open>The holding block throws exactly when a supplied wallet has no entry for the pair.\<close>

lemma holdingTrade_throws:
  "holdingTrade pr extra = Inl e \<longleftrightarrow>
     (\<exists>w. wallet extra = Some w \<and> find (\<lambda>bal. bal_symbol bal = pr) (balances w) = None)
   \<or> (\<exists>fw. futuresWallet extra = Some fw \<and> find (\<lambda>pos. pos_pair pos = pr) (positions fw) = None)"
  by (cases e) (auto simp: holdingTrade_def andThen_def split: option.splits sum.splits)

text \<open>
  Claim C4. The claim has the KIJUN input follow the KIJUN flag alone. The object literal
  reads \<open>KIJUN: IndicatorInputsConfig['EMA21'] || false\<close>, so the KIJUN switch is the
  EMA21 flag: with only the KIJUN flag set the switch is off and the input array holds the
  holding flag alone; with EMA21 set and KIJUN cleared the switch is on.
\<close>
theorem kijun_flag_is_read_from_EMA21:
  "KIJUN (NEURAL_NETWORK_INPUTS cfg) = orFalse (cfg ''EMA21'')
   \<and> KIJUN (NEURAL_NETWORK_INPUTS (Map.empty(''KIJUN'' \<mapsto> True))) = False
   \<and> KIJUN (NEURAL_NETWORK_INPUTS (Map.empty(''EMA21'' \<mapsto> True, ''KIJUN'' \<mapsto> False))) = True
   \<and> getInputsFromIndicators lib (Map.empty(''KIJUN'' \<mapsto> True)) pr candles noWallet = Inr [Num 0]"
  by (simp add: NEURAL_NETWORK_INPUTS_def orFalse_def getInputsFromIndicators_def Let_def
       ema21_input_def ema50_input_def ema100_input_def adx_input_def ao_input_def cci_input_def
       mfi_input_def roc_input_def rsi_input_def williamR_input_def kijun_input_def
       vwap_input_def volOsc_input_def vol_input_def andThen_simps holdingTrade_noWallet)

lemma lastOrUndefined_not_Null: "lastOrUndefined xs \<noteq> Null"
  by (simp add: lastOrUndefined_def split: option.splits)

lemma ema21_kept: "(ema21_input lib ni candles \<noteq> Null) = EMA21 ni"
  by (simp add: ema21_input_def lastOrUndefined_not_Null)
lemma ema50_kept: "(ema50_input lib ni candles \<noteq> Null) = EMA50 ni"
  by (simp add: ema50_input_def lastOrUndefined_not_Null)
lemma ema100_kept: "(ema100_input lib ni candles \<noteq> Null) = EMA100 ni"
  by (simp add: ema100_input_def lastOrUndefined_not_Null)
lemma ao_kept: "(ao_input lib ni candles \<noteq> Null) = AO ni"
  by (simp add: ao_input_def lastOrUndefined_not_Null)
lemma cci_kept: "(cci_input lib ni candles \<noteq> Null) = CCI ni"
  by (simp add: cci_input_def lastOrUndefined_not_Null)
lemma mfi_kept: "(mfi_input lib ni candles \<noteq> Null) = MFI ni"
  by (simp add: mfi_input_def lastOrUndefined_not_Null)
lemma roc_kept: "(roc_input lib ni candles \<noteq> Null) = ROC ni"
  by (simp add: roc_input_def lastOrUndefined_not_Null)
lemma rsi_kept: "(rsi_input ni candles \<noteq> Null) = RSI ni"
  by (simp add: rsi_input_def lastOrUndefined_not_Null)
lemma williamR_kept: "(williamR_input lib ni candles \<noteq> Null) = WILLIAM_R ni"
  by (simp add: williamR_input_def lastOrUndefined_not_Null)
lemma volOsc_kept: "(volOsc_input lib ni candles \<noteq> Null) = VOL_OSC ni"
  by (simp add: volOsc_input_def lastOrUndefined_not_Null)
lemma adx_kept: "adx_input lib ni candles = Inr v \<Longrightarrow> (v \<noteq> Null) = ADX ni"
  by (auto simp: adx_input_def split: if_splits option.splits)
lemma kijun_kept: "kijun_input lib ni candles = Inr v \<Longrightarrow> (v \<noteq> Null) = KIJUN ni"
  by (auto simp: kijun_input_def split: if_splits option.splits)
lemma vwap_kept: "vwap_input lib ni candles = Inr v \<Longrightarrow> (v \<noteq> Null) = VWAP ni"
  by (auto simp: vwap_input_def lastOrUndefined_not_Null split: if_splits option.splits)
lemma vol_kept: "vol_input ni candles = Inr v \<Longrightarrow> (v \<noteq> Null) = VOL ni"
  by (auto simp: vol_input_def split: if_splits option.splits)

lemma js_slice_last_empty: "js_index (js_slice (- 1) xs) 0 = None \<longleftrightarrow> xs = []"
  by (cases xs) (auto simp: js_index_def js_slice_def Let_def)

lemma js_index_last_empty: "js_index xs (int (length xs) - 1) = None \<longleftrightarrow> xs = []"
  by (cases xs) (auto simp: js_index_def)

lemma adx_throws: "adx_input lib ni candles = Inl e \<longleftrightarrow>
   ADX ni \<and> ADX_calculate lib 14 (js_slice (- 15) (map close candles))
               (js_slice (- 15) (map high candles)) (js_slice (- 15) (map low candles)) = []"
  using js_slice_last_empty[of "ADX_calculate lib 14 (js_slice (- 15) (map close candles))
               (js_slice (- 15) (map high candles)) (js_slice (- 15) (map low candles))"]
  by (cases e) (auto simp: adx_input_def split: option.splits)

lemma kijun_throws: "kijun_input lib ni candles = Inl e \<longleftrightarrow>
   KIJUN ni \<and> IchimokuCloud_calculate lib 9 26 52 26 (js_slice (- 53) (map high candles))
                 (js_slice (- 53) (map low candles)) = []"
  using js_slice_last_empty[of "IchimokuCloud_calculate lib 9 26 52 26 (js_slice (- 53) (map high candles))
                 (js_slice (- 53) (map low candles))"]
  by (cases e) (auto simp: kijun_input_def split: option.splits)

lemma vwap_throws: "vwap_input lib ni candles = Inl e \<longleftrightarrow> VWAP ni \<and> candles = []"
  using js_index_last_empty[of candles]
  by (cases e) (auto simp: vwap_input_def split: option.splits)

lemma vol_throws: "vol_input ni candles = Inl e \<longleftrightarrow> VOL ni \<and> candles = []"
  using js_index_last_empty[of candles]
  by (cases e) (auto simp: vol_input_def split: option.splits)

lemma length_filter_Cons: "length (filter P (x # xs)) = of_bool (P x) + length (filter P xs)"
  by simp

lemma count_enabled:
  "length (filter (\<lambda>(key, val). val = True) (Object_entries ni)) =
     of_bool (EMA21 ni) + of_bool (EMA50 ni) + of_bool (EMA100 ni) + of_bool (ADX ni)
   + of_bool (AO ni) + of_bool (CCI ni) + of_bool (MFI ni) + of_bool (ROC ni) + of_bool (RSI ni)
   + of_bool (WILLIAM_R ni) + of_bool (KIJUN ni) + of_bool (VWAP ni) + of_bool (VOL_OSC ni)
   + of_bool (VOL ni)"
  unfolding Object_entries_def
  by (simp only: length_filter_Cons filter.simps(1) list.size prod.case simp_thms add_0_right add.assoc)

lemma getInputsFromIndicators_Inr_length:
  assumes "getInputsFromIndicators lib cfg pr candles extra = Inr inputs"
  shows "length inputs =
     length (filter (\<lambda>(key, val). val = True) (Object_entries (NEURAL_NETWORK_INPUTS cfg))) + 1"
proof -
  define ni where "ni = NEURAL_NETWORK_INPUTS cfg"
  from assms obtain adxv kijun vwap vol held where
    a: "adx_input lib ni candles = Inr adxv" and
    k: "kijun_input lib ni candles = Inr kijun" and
    w: "vwap_input lib ni candles = Inr vwap" and
    v: "vol_input ni candles = Inr vol" and
    h: "holdingTrade pr extra = Inr held" and
    i: "inputs = filter (\<lambda>i. i \<noteq> Null)
          [ema21_input lib ni candles, ema50_input lib ni candles, ema100_input lib ni candles,
           adxv, ao_input lib ni candles, cci_input lib ni candles, mfi_input lib ni candles,
           roc_input lib ni candles, rsi_input ni candles, williamR_input lib ni candles, vwap,
           kijun, volOsc_input lib ni candles, vol, Num (if held then 1 else 0)]"
    unfolding getInputsFromIndicators_def Let_def andThen_Inr ni_def by auto
  have "length inputs =
     of_bool (EMA21 ni) + (of_bool (EMA50 ni) + (of_bool (EMA100 ni) + (of_bool (ADX ni)
   + (of_bool (AO ni) + (of_bool (CCI ni) + (of_bool (MFI ni) + (of_bool (ROC ni) + (of_bool (RSI ni)
   + (of_bool (WILLIAM_R ni) + (of_bool (VWAP ni) + (of_bool (KIJUN ni) + (of_bool (VOL_OSC ni)
   + (of_bool (VOL ni) + 1)))))))))))))"
    unfolding i
    by (simp only: length_filter_Cons filter.simps(1) list.size ema21_kept ema50_kept ema100_kept
          adx_kept[OF a] ao_kept cci_kept mfi_kept roc_kept rsi_kept williamR_kept vwap_kept[OF w]
          kijun_kept[OF k] volOsc_kept vol_kept[OF v] jsval.distinct simp_thms of_bool_eq add_0_right)
  then show ?thesis
    unfolding count_enabled ni_def by (simp only: ac_simps)
qed

lemma getInputsFromIndicators_Inr_shape:
  assumes "getInputsFromIndicators lib cfg pr candles extra = Inr inputs"
  shows "Null \<notin> set inputs \<and> inputs \<noteq> [] \<and> (last inputs = Num 0 \<or> last inputs = Num 1)"
proof -
  from assms obtain xs held where
    i: "inputs = filter (\<lambda>i. i \<noteq> Null) (xs @ [Num (if held then 1 else 0)])"
    unfolding getInputsFromIndicators_def Let_def andThen_Inr
    by (metis append_Cons append_Nil sum.inject(2))
  show ?thesis unfolding i by auto
qed

lemma getInputsFromIndicators_throws:
  "(\<exists>e. getInputsFromIndicators lib cfg pr candles extra = Inl e) \<longleftrightarrow>
     (ADX (NEURAL_NETWORK_INPUTS cfg) \<and>
        ADX_calculate lib 14 (js_slice (- 15) (map close candles))
          (js_slice (- 15) (map high candles)) (js_slice (- 15) (map low candles)) = [])
   \<or> (KIJUN (NEURAL_NETWORK_INPUTS cfg) \<and>
        IchimokuCloud_calculate lib 9 26 52 26 (js_slice (- 53) (map high candles))
          (js_slice (- 53) (map low candles)) = [])
   \<or> ((VWAP (NEURAL_NETWORK_INPUTS cfg) \<or> VOL (NEURAL_NETWORK_INPUTS cfg)) \<and> candles = [])
   \<or> holdingTrade pr extra = Inl TypeError"
proof -
  define ni where "ni = NEURAL_NETWORK_INPUTS cfg"
  have "(\<exists>e. getInputsFromIndicators lib cfg pr candles extra = Inl e) \<longleftrightarrow>
      (\<exists>e. adx_input lib ni candles = Inl e) \<or> (\<exists>e. kijun_input lib ni candles = Inl e)
    \<or> (\<exists>e. vwap_input lib ni candles = Inl e) \<or> (\<exists>e. vol_input ni candles = Inl e)
    \<or> (\<exists>e. holdingTrade pr extra = Inl e)"
    unfolding getInputsFromIndicators_def Let_def ni_def[symmetric]
    by (cases "adx_input lib ni candles"; cases "kijun_input lib ni candles";
        cases "vwap_input lib ni candles"; cases "vol_input ni candles";
        cases "holdingTrade pr extra") (simp_all add: andThen_simps)
  also have "\<dots> \<longleftrightarrow> (ADX ni \<and>
        ADX_calculate lib 14 (js_slice (- 15) (map close candles))
          (js_slice (- 15) (map high candles)) (js_slice (- 15) (map low candles)) = [])
   \<or> (KIJUN ni \<and>
        IchimokuCloud_calculate lib 9 26 52 26 (js_slice (- 53) (map high candles))
          (js_slice (- 53) (map low candles)) = [])
   \<or> ((VWAP ni \<or> VOL ni) \<and> candles = [])
   \<or> holdingTrade pr extra = Inl TypeError"
    unfolding adx_throws kijun_throws vwap_throws vol_throws
    using error_is_TypeError by auto
  finally show ?thesis unfolding ni_def .
qed

text \<open>With ADX and KIJUN off, at least one candle and a wallet lookup that succeeds, the
  call returns.\<close>

lemma getInputsFromIndicators_returns:
  assumes "\<not> ADX (NEURAL_NETWORK_INPUTS cfg)" "\<not> KIJUN (NEURAL_NETWORK_INPUTS cfg)"
    "candles \<noteq> []" "holdingTrade pr extra = Inr held"
  shows "\<exists>inputs. getInputsFromIndicators lib cfg pr candles extra = Inr inputs"
proof (cases "getInputsFromIndicators lib cfg pr candles extra")
  case (Inl e)
  then have "\<exists>e. getInputsFromIndicators lib cfg pr candles extra = Inl e" by blast
  then show ?thesis unfolding getInputsFromIndicators_throws using assms by simp
qed blast

lemma eval_no_history:
  "getInputsFromIndicators noHistoryLibrary
        (Map.empty(''EMA50'' \<mapsto> True, ''RSI'' \<mapsto> True, ''VOL'' \<mapsto> True)) ''BTCUSDT''
        [candleOfClose 50] noWallet
      = Inr [Undefined, Undefined, Num 0, Num 0]"
  by (simp add: NEURAL_NETWORK_INPUTS_def orFalse_def getInputsFromIndicators_def Let_def
       ema21_input_def ema50_input_def ema100_input_def adx_input_def ao_input_def cci_input_def
       mfi_input_def roc_input_def rsi_input_def williamR_input_def kijun_input_def
       vwap_input_def volOsc_input_def vol_input_def andThen_simps holdingTrade_noWallet
       noHistoryLibrary_def lastOrUndefined_def js_index_def js_slice_def candleOfClose_def
       length_RSI_calculate)

text \<open>
  Claim C8. In indicator mode \<open>getInputsFromIndicators\<close> either throws or returns. It
  throws a \<open>TypeError\<close> exactly when ADX (or KIJUN) is switched on and its series is
  empty, when VWAP or VOL is switched on and the candle list is empty, or when a supplied
  wallet has no entry for the pair. Otherwise it returns a list of length exactly
  \<open>NUMBER_INPUTS\<close>, the number of switches that are on plus one: no \<open>null\<close> is left in
  it, an \<open>undefined\<close> slot stays, and the last element is the holding flag 0 or 1.
\<close>
theorem getInputsFromIndicators_length:
  assumes "mode \<noteq> ''candles''"
  shows "((\<exists>e. getInputsFromIndicators lib cfg pr candles extra = Inl e) \<longleftrightarrow>
              (ADX (NEURAL_NETWORK_INPUTS cfg) \<and>
                 ADX_calculate lib 14 (js_slice (- 15) (map close candles))
                   (js_slice (- 15) (map high candles)) (js_slice (- 15) (map low candles)) = [])
            \<or> (KIJUN (NEURAL_NETWORK_INPUTS cfg) \<and>
                 IchimokuCloud_calculate lib 9 26 52 26 (js_slice (- 53) (map high candles))
                   (js_slice (- 53) (map low candles)) = [])
            \<or> ((VWAP (NEURAL_NETWORK_INPUTS cfg) \<or> VOL (NEURAL_NETWORK_INPUTS cfg)) \<and> candles = [])
            \<or> holdingTrade pr extra = Inl TypeError)
       \<and> (\<forall>inputs. getInputsFromIndicators lib cfg pr candles extra = Inr inputs \<longrightarrow>
              length inputs = NUMBER_INPUTS mode cfg \<and> Null \<notin> set inputs
              \<and> (last inputs = Num 0 \<or> last inputs = Num 1))"
proof (intro conjI allI impI)
  show "(\<exists>e. getInputsFromIndicators lib cfg pr candles extra = Inl e) \<longleftrightarrow>
              (ADX (NEURAL_NETWORK_INPUTS cfg) \<and>
                 ADX_calculate lib 14 (js_slice (- 15) (map close candles))
                   (js_slice (- 15) (map high candles)) (js_slice (- 15) (map low candles)) = [])
            \<or> (KIJUN (NEURAL_NETWORK_INPUTS cfg) \<and>
                 IchimokuCloud_calculate lib 9 26 52 26 (js_slice (- 53) (map high candles))
                   (js_slice (- 53) (map low candles)) = [])
            \<or> ((VWAP (NEURAL_NETWORK_INPUTS cfg) \<or> VOL (NEURAL_NETWORK_INPUTS cfg)) \<and> candles = [])
            \<or> holdingTrade pr extra = Inl TypeError"
    by (rule getInputsFromIndicators_throws)
next
  fix inputs
  assume r: "getInputsFromIndicators lib cfg pr candles extra = Inr inputs"
  show "length inputs = NUMBER_INPUTS mode cfg"
    using getInputsFromIndicators_Inr_length[OF r] assms by (simp add: NUMBER_INPUTS_def)
  show "Null \<notin> set inputs" "last inputs = Num 0 \<or> last inputs = Num 1"
    using getInputsFromIndicators_Inr_shape[OF r] by simp_all
qed

text \<open>Three switches on, one candle, every library series empty: two \<open>undefined\<close> slots
  are kept and the length is 4.\<close>

theorem getInputsFromIndicators_length_witness:
  "getInputsFromIndicators noHistoryLibrary
        (Map.empty(''EMA50'' \<mapsto> True, ''RSI'' \<mapsto> True, ''VOL'' \<mapsto> True)) ''BTCUSDT''
        [candleOfClose 50] noWallet
      = Inr [Undefined, Undefined, Num 0, Num 0]
   \<and> NUMBER_INPUTS ''indicators''
        (Map.empty(''EMA50'' \<mapsto> True, ''RSI'' \<mapsto> True, ''VOL'' \<mapsto> True)) = 4"
  using getInputsFromIndicators_length [where mode = "''indicators''" and lib = noHistoryLibrary
      and cfg = "Map.empty(''EMA50'' \<mapsto> True, ''RSI'' \<mapsto> True, ''VOL'' \<mapsto> True)"
      and pr = "''BTCUSDT''" and candles = "[candleOfClose 50]" and extra = noWallet]
  by (simp add: eval_no_history)

text \<open>With VOL on and no candle the call throws, and so it does with ADX on, one candle and
  an empty ADX series: no list of length 2 is returned.\<close>

theorem empty_history_counterexample:
  "NUMBER_INPUTS ''indicators'' (Map.empty(''VOL'' \<mapsto> True)) = 2
   \<and> getInputsFromIndicators noHistoryLibrary (Map.empty(''VOL'' \<mapsto> True)) ''BTCUSDT'' [] noWallet
       = Inl TypeError
   \<and> NUMBER_INPUTS ''indicators'' (Map.empty(''ADX'' \<mapsto> True)) = 2
   \<and> getInputsFromIndicators noHistoryLibrary (Map.empty(''ADX'' \<mapsto> True)) ''BTCUSDT''
         [candleOfClose 50] noWallet
       = Inl TypeError"
  by (simp add: NUMBER_INPUTS_def Object_entries_def noHistoryLibrary_def js_slice_def
       NEURAL_NETWORK_INPUTS_def orFalse_def getInputsFromIndicators_def Let_def
       ema21_input_def ema50_input_def ema100_input_def adx_input_def ao_input_def cci_input_def
       mfi_input_def roc_input_def rsi_input_def williamR_input_def kijun_input_def
       vwap_input_def volOsc_input_def vol_input_def andThen_simps holdingTrade_noWallet
       js_index_def)

section \<open>Facts about the inputs from candles\<close>

lemma js_slice_last_n:
  assumes "1 \<le> n"
  shows "js_slice (- n) xs = drop (length xs - min (nat n) (length xs)) xs"
  using assms by (auto simp: js_slice_def Let_def min_def max_def nat_diff_distrib' intro: arg_cong)

lemma getCandleSource_field:
  "getCandleSource src candles =
     map (\<lambda>c. if src = ''open'' then open_c c
              else if src = ''high'' then high c
              else if src = ''low'' then low c
              else if src = ''hl2'' then (high c + low c) / 2
              else close c) candles"
  by (simp add: getCandleSource_def)

text \<open>
  Claim C10. For a requested length of at least 1, \<open>getInputsFromCandles\<close> throws when the
  wallet lookup does, and otherwise returns the last \<open>min(length, len(candles))\<close> values of
  the configured source (open, close, high, low or hl2, and close for any other name)
  followed by the holding flag, 1 or 0. (\<open>slice(-0)\<close> is \<open>slice(0)\<close>: a requested length
  of 0 keeps every value.)
\<close>
theorem getInputsFromCandles_last_values:
  assumes "1 \<le> len"
  shows "getInputsFromCandles src pr candles len extra =
     (case holdingTrade pr extra of
        Inl e \<Rightarrow> Inl e
      | Inr held \<Rightarrow>
          Inr (drop (length candles - min (nat len) (length candles))
                 (map (\<lambda>c. if src = ''open'' then open_c c
                           else if src = ''high'' then high c
                           else if src = ''low'' then low c
                           else if src = ''hl2'' then (high c + low c) / 2
                           else close c) candles)
               @ [if held then 1 else 0]))"
  using js_slice_last_n[OF assms, of "getCandleSource src candles"]
  by (simp add: getInputsFromCandles_def andThen_def getCandleSource_field split: sum.splits)

text \<open>The last two hl2 values of three candles, with a positive spot balance.\<close>

theorem getInputsFromCandles_last_values_witness:
  "getInputsFromCandles ''hl2'' ''BTCUSDT''
      [candleOfClose 1, (candleOfClose 2)\<lparr>high := 4\<rparr>, candleOfClose 3] 2
      \<lparr> wallet = Some \<lparr> balances = [\<lparr> bal_symbol = ''BTCUSDT'', bal_quantity = 5 \<rparr>] \<rparr>,
        futuresWallet = None \<rparr>
    = Inr [3, 3, 1]"
  using getInputsFromCandles_last_values [where len = 2 and src = "''hl2''" and pr = "''BTCUSDT''"
      and candles = "[candleOfClose 1, (candleOfClose 2)\<lparr>high := 4\<rparr>, candleOfClose 3]"
      and extra = "\<lparr> wallet = Some \<lparr> balances = [\<lparr> bal_symbol = ''BTCUSDT'', bal_quantity = 5 \<rparr>] \<rparr>,
        futuresWallet = None \<rparr>"]
  by (simp add: holdingTrade_def andThen_def candleOfClose_def)

text \<open>A requested length of 0 on two candles returns both closes, not none; and a spot
  wallet with no balance for the pair makes the call throw.\<close>

theorem zero_length_counterexample:
  "getInputsFromCandles ''close'' ''BTCUSDT'' [candleOfClose 1, candleOfClose 2] 0 noWallet
     = Inr [1, 2, 0]
   \<and> getInputsFromCandles ''close'' ''BTCUSDT'' [candleOfClose 1, candleOfClose 2] 1
       \<lparr> wallet = Some \<lparr> balances = [] \<rparr>, futuresWallet = None \<rparr>
     = Inl TypeError"
proof -
  have "getInputsFromCandles ''close'' ''BTCUSDT'' [candleOfClose 1, candleOfClose 2] 0 noWallet
     = Inr [1, 2, 0]"
    by (simp add: getInputsFromCandles_def andThen_simps holdingTrade_noWallet js_slice_def
         getCandleSource_def candleOfClose_def)
  moreover have "holdingTrade ''BTCUSDT'' \<lparr> wallet = Some \<lparr> balances = [] \<rparr>, futuresWallet = None \<rparr>
     = Inl TypeError"
    by (simp add: holdingTrade_def andThen_def)
  then have "getInputsFromCandles ''close'' ''BTCUSDT'' [candleOfClose 1, candleOfClose 2] 1
       \<lparr> wallet = Some \<lparr> balances = [] \<rparr>, futuresWallet = None \<rparr>
     = Inl TypeError"
    by (simp add: getInputsFromCandles_def andThen_simps)
  ultimately show ?thesis by simp
qed

section \<open>Facts about the decision\<close>

lemma Math_max_Max: "xs \<noteq> [] \<Longrightarrow> Math_max xs = Some (Max (set xs))"
proof (cases xs)
  case Nil
  assume "xs \<noteq> []"
  with Nil show ?thesis by simp
next
  case (Cons y ys)
  have "Max (set (y # ys)) = fold max ys y" by (rule Max.set_eq_fold)
  then show ?thesis unfolding Cons Math_max_def by (simp only: list.case)
qed

lemma chosen_output:
  "strictEq (Math_max xs) (js_index xs (int i)) \<and> js_gt (js_index xs (int i)) t \<longleftrightarrow>
     i < length xs \<and> xs ! i = Max (set xs) \<and> xs ! i > t"
proof (cases xs)
  case Nil
  then show ?thesis by (simp add: Math_max_def strictEq_def)
next
  case (Cons y ys)
  then have "xs \<noteq> []" by simp
  then show ?thesis
    by (auto simp: Math_max_Max strictEq_def js_index_def js_gt_def)
qed

lemma decide_cases:
  fixes actions :: "real list"
  defines "hit i \<equiv> i < length actions \<and> actions ! i = Max (set actions) \<and> actions ! i > 0.6"
  shows "(if strictEq (Math_max actions) (js_index actions 0) \<and> js_gt (js_index actions 0) 0.6
          then Some BUY
          else if strictEq (Math_max actions) (js_index actions 1) \<and> js_gt (js_index actions 1) 0.6
          then Some SELL
          else if strictEq (Math_max actions) (js_index actions 2) \<and> js_gt (js_index actions 2) 0.6
          then Some CLOSE
          else None)
       = (if hit 0 then Some BUY else if hit 1 then Some SELL else if hit 2 then Some CLOSE else None)"
  using chosen_output[of actions 0 "0.6"] chosen_output[of actions 1 "0.6"]
    chosen_output[of actions 2 "0.6"]
  unfolding hit_def by simp

text \<open>
  Claim C9. When \<open>getOutputs\<close> returns, its answer is \<open>BUY\<close> only if the first output of
  the network is the maximum and above 0.6, \<open>SELL\<close> only if the second is, \<open>CLOSE\<close> only
  if the third is; and when no output is both the maximum and above 0.6 it is \<open>undefined\<close>.
\<close>
theorem getOutputs_decision:
  assumes "getOutputs mode src lib cfg predict pr candles extra = Inr decision"
  shows "\<exists>inputs.
      (if mode = ''candles''
       then (\<exists>xs. getInputsFromCandles src pr candles 20 extra = Inr xs \<and> inputs = map Num xs)
       else getInputsFromIndicators lib cfg pr candles extra = Inr inputs)
    \<and> (decision = Some BUY \<longrightarrow>
         0 < length (predict inputs) \<and> predict inputs ! 0 = Max (set (predict inputs))
         \<and> predict inputs ! 0 > 0.6)
    \<and> (decision = Some SELL \<longrightarrow>
         1 < length (predict inputs) \<and> predict inputs ! 1 = Max (set (predict inputs))
         \<and> predict inputs ! 1 > 0.6)
    \<and> (decision = Some CLOSE \<longrightarrow>
         2 < length (predict inputs) \<and> predict inputs ! 2 = Max (set (predict inputs))
         \<and> predict inputs ! 2 > 0.6)
    \<and> ((\<forall>i < length (predict inputs).
           \<not> (predict inputs ! i = Max (set (predict inputs)) \<and> predict inputs ! i > 0.6))
        \<longrightarrow> decision = None)"
proof -
  from assms obtain inputs where
    src: "(if mode = ''candles''
           then andThen (getInputsFromCandles src pr candles 20 extra) (\<lambda>xs. Inr (map Num xs))
           else getInputsFromIndicators lib cfg pr candles extra) = Inr inputs" and
    dec: "decision =
      (if 0 < length (predict inputs) \<and> predict inputs ! 0 = Max (set (predict inputs)) \<and> predict inputs ! 0 > 0.6
       then Some BUY
       else if 1 < length (predict inputs) \<and> predict inputs ! 1 = Max (set (predict inputs)) \<and> predict inputs ! 1 > 0.6
       then Some SELL
       else if 2 < length (predict inputs) \<and> predict inputs ! 2 = Max (set (predict inputs)) \<and> predict inputs ! 2 > 0.6
       then Some CLOSE
       else None)"
    unfolding getOutputs_def andThen_Inr Let_def decide_cases by auto
  have inp: "(if mode = ''candles''
       then (\<exists>xs. getInputsFromCandles src pr candles 20 extra = Inr xs \<and> inputs = map Num xs)
       else getInputsFromIndicators lib cfg pr candles extra = Inr inputs)"
    using src by (auto simp: andThen_Inr split: if_splits)
  show ?thesis
    apply (rule exI[of _ inputs])
    using inp dec by (auto split: if_splits)
qed

text \<open>A network whose first output, 0.7, is the largest: the answer is \<open>BUY\<close>.\<close>

theorem getOutputs_decision_witness:
  "getOutputs ''candles'' ''close'' noHistoryLibrary Map.empty
      (\<lambda>inputs. if last inputs = Num 1 then [0.2, 0.7, 0.1] else [0.7, 0.2, 0.1])
      ''BTCUSDT'' [candleOfClose 1] noWallet = Inr (Some BUY)
   \<and> [0.7, 0.2, 0.1] ! 0 = Max (set [0.7, 0.2, 0.1 :: real])"
proof -
  have inputs: "getInputsFromCandles ''close'' ''BTCUSDT'' [candleOfClose 1] 20 noWallet = Inr [1, 0]"
    by (simp add: getInputsFromCandles_def andThen_simps holdingTrade_noWallet js_slice_def
          getCandleSource_def candleOfClose_def)
  have run: "getOutputs ''candles'' ''close'' noHistoryLibrary Map.empty
      (\<lambda>inputs. if last inputs = Num 1 then [0.2, 0.7, 0.1] else [0.7, 0.2, 0.1])
      ''BTCUSDT'' [candleOfClose 1] noWallet = Inr (Some BUY)"
    by (simp add: getOutputs_def inputs andThen_simps Math_max_def strictEq_def js_index_def
          js_gt_def)
  from getOutputs_decision [OF run] inputs
  have "[0.7, 0.2, 0.1] ! 0 = Max (set [0.7, 0.2, 0.1 :: real])"
    by auto
  with run show ?thesis by simp
qed

end
